theory Spec2Isabelle
  imports Main
begin

section \<open>Python values\<close>

text \<open>
  The module handles the JSON values the array's REST interface returns and the
  parameters of the playbook task. \<open>pyval\<close> is the part of Python's value space
  they live in; a dictionary is an association list (the first binding of a key is
  the one \<open>map_of\<close> reads).
\<close>

datatype pyval =
    PNone
  | PBool bool
  | PInt int
  | PStr string
  | PList "pyval list"
  | PDict "(string \<times> pyval) list"

type_synonym dict = "(string \<times> pyval) list"

text \<open>Python's truth value of an object, as \<^verbatim>\<open>if x:\<close> tests it.\<close>

fun truthy :: "pyval \<Rightarrow> bool" where
  "truthy PNone = False"
| "truthy (PBool b) = b"
| "truthy (PInt i) = (i \<noteq> 0)"
| "truthy (PStr s) = (s \<noteq> [])"
| "truthy (PList xs) = (xs \<noteq> [])"
| "truthy (PDict d) = (d \<noteq> [])"

text \<open>A module parameter of type \<^verbatim>\<open>str\<close>: \<^verbatim>\<open>None\<close> when the task leaves it out.\<close>

definition of_str :: "string option \<Rightarrow> pyval" where
  "of_str x = (case x of None \<Rightarrow> PNone | Some s \<Rightarrow> PStr s)"

definition of_int_opt :: "int option \<Rightarrow> pyval" where
  "of_int_opt x = (case x of None \<Rightarrow> PNone | Some i \<Rightarrow> PInt i)"

definition keys :: "dict \<Rightarrow> string list" where
  "keys d = map fst d"

text \<open>\<^verbatim>\<open>d.get(k)\<close>: \<^verbatim>\<open>None\<close> for a missing key.\<close>

definition get :: "dict \<Rightarrow> string \<Rightarrow> pyval" where
  "get d k = (case map_of d k of None \<Rightarrow> PNone | Some v \<Rightarrow> v)"

section \<open>The modification-needed predicate\<close>

text \<open>
  \<^verbatim>\<open>
  def modify_remote_system_required(remote_sys_details, passed_args):
      for key in remote_sys_details.keys():
          if key in passed_args.keys() and\
                  passed_args[key] is not None and\
                  remote_sys_details[key] != passed_args[key]:
              return True
      return False
  \<close>
  The loop runs over the keys of the fetched record and returns at the first hit.
  \<open>!=\<close> is HOL's inequality on \<open>pyval\<close>: it is Python's whenever one side is a
  string, and the only caller passes strings and \<^verbatim>\<open>None\<close> as \<open>passed_args\<close> values.
\<close>

fun modify_required_loop :: "string list \<Rightarrow> dict \<Rightarrow> dict \<Rightarrow> bool" where
  "modify_required_loop [] remote_sys_details passed_args = False"
| "modify_required_loop (key # rest) remote_sys_details passed_args =
     (if key \<in> set (keys passed_args) \<and>
         map_of passed_args key \<noteq> Some PNone \<and>
         map_of remote_sys_details key \<noteq> map_of passed_args key
      then True
      else modify_required_loop rest remote_sys_details passed_args)"

definition modify_remote_system_required :: "dict \<Rightarrow> dict \<Rightarrow> bool" where
  "modify_remote_system_required remote_sys_details passed_args =
     modify_required_loop (keys remote_sys_details) remote_sys_details passed_args"

section \<open>Failures\<close>

text \<open>
  Modelled from the spec: the exception class \<^verbatim>\<open>utils.PowerStoreException\<close> of the
  collection's shared utilities is not part of this module. The module reads its
  \<^verbatim>\<open>err_code\<close> (compared with the constant \<^verbatim>\<open>HTTP_ERR\<close>) and its \<^verbatim>\<open>status_code\<close>
  (compared with the string \<^verbatim>\<open>"404"\<close>); the spec calls the combination a 404-class
  failure. Any other exception the Array Client raises is \<open>Other_exception\<close>.
\<close>

datatype err_code = HTTP_ERR | OTHER_ERR

datatype exn = PowerStoreException err_code pyval | Other_exception

text \<open>
  \<^verbatim>\<open>isinstance(e, utils.PowerStoreException) and
  e.err_code == utils.PowerStoreException.HTTP_ERR and e.status_code == "404"\<close>
\<close>

fun is_http_404 :: "exn \<Rightarrow> bool" where
  "is_http_404 (PowerStoreException code status) = (code = HTTP_ERR \<and> status = PStr ''404'')"
| "is_http_404 Other_exception = False"

text \<open>
  The messages the module passes to \<^verbatim>\<open>fail_json\<close>, which ends the run. The text of a
  message is not modelled, only which of the calls of \<^verbatim>\<open>fail_json\<close> it comes from and
  the exception it reports.
\<close>

datatype message =
    No_active_cluster
  | Name_needs_address_or_id
  | Name_not_matching
  | Id_or_name_at_creation
  | Get_clusters_failed exn
  | Get_details_failed exn
  | Exchange_certificate_failed exn
  | Create_failed exn
  | Modify_failed exn
  | Delete_failed exn

text \<open>
  A run ends early either through \<^verbatim>\<open>fail_json\<close> or through a Python exception that
  no handler of the module catches.
\<close>

datatype failure =
    Fail_json message
  | KeyError string
  | TypeError
  | AttributeError

text \<open>\<^verbatim>\<open>x[k]\<close> for a string key: only a dictionary that has the key answers.\<close>

fun subscript :: "pyval \<Rightarrow> string \<Rightarrow> failure + pyval" where
  "subscript (PDict d) k = (case map_of d k of None \<Rightarrow> Inl (KeyError k) | Some v \<Rightarrow> Inr v)"
| "subscript PNone k = Inl TypeError"
| "subscript (PBool b) k = Inl TypeError"
| "subscript (PInt i) k = Inl TypeError"
| "subscript (PStr s) k = Inl TypeError"
| "subscript (PList xs) k = Inl TypeError"

definition and_then :: "failure + 'a \<Rightarrow> ('a \<Rightarrow> failure + 'b) \<Rightarrow> failure + 'b" where
  "and_then r f = (case r of Inl e \<Rightarrow> Inl e | Inr x \<Rightarrow> f x)"

section \<open>The Array Client\<close>

text \<open>
  The calls the module makes on the SDK objects \<^verbatim>\<open>self.provisioning\<close>,
  \<^verbatim>\<open>self.protection\<close> and \<^verbatim>\<open>self.configuration\<close>, with their arguments. A run
  records them in the order they are made.
\<close>

datatype call =
    Get_cluster_list
  | Get_remote_system_by_mgmt_address pyval
  | Get_remote_system_details pyval
  | Exchange_certificate dict
  | Create_remote_system dict
  | Modify_remote_system pyval dict bool
  | Delete_remote_system pyval bool

text \<open>
  The client is outside the module: every call either raises or returns, and what it
  answers may depend on all the calls made before it (the first argument). Answers
  are typed as the REST interface gives them: lists of objects for the two list
  queries, an object for details and creation, any value for modify and delete.
\<close>

record client =
  provisioning_get_cluster_list :: "call list \<Rightarrow> exn + dict list"
  protection_get_remote_system_by_mgmt_address :: "call list \<Rightarrow> pyval \<Rightarrow> exn + dict list"
  protection_get_remote_system_details :: "call list \<Rightarrow> pyval \<Rightarrow> exn + dict"
  configuration_exchange_certificate :: "call list \<Rightarrow> dict \<Rightarrow> exn + unit"
  protection_create_remote_system :: "call list \<Rightarrow> dict \<Rightarrow> exn + dict"
  protection_modify_remote_system :: "call list \<Rightarrow> pyval \<Rightarrow> dict \<Rightarrow> bool \<Rightarrow> exn + pyval"
  protection_delete_remote_system :: "call list \<Rightarrow> pyval \<Rightarrow> bool \<Rightarrow> exn + pyval"

fun is_exchange :: "call \<Rightarrow> bool" where
  "is_exchange (Exchange_certificate d) = True"
| "is_exchange x = False"

fun is_create :: "call \<Rightarrow> bool" where
  "is_create (Create_remote_system d) = True"
| "is_create x = False"

fun is_modify :: "call \<Rightarrow> bool" where
  "is_modify (Modify_remote_system i d a) = True"
| "is_modify x = False"


fun is_delete :: "call \<Rightarrow> bool" where
  "is_delete (Delete_remote_system i a) = True"
| "is_delete x = False"

definition mutating :: "call \<Rightarrow> bool" where
  "mutating x = (is_exchange x \<or> is_create x \<or> is_modify x \<or> is_delete x)"

text \<open>
  The outcome of a piece of the run: a failure or a value, and the calls made so far.
\<close>

type_synonym 'a run = "(failure + 'a) \<times> call list"

definition then_do :: "'a run \<Rightarrow> ('a \<Rightarrow> call list \<Rightarrow> 'b run) \<Rightarrow> 'b run" where
  "then_do r f = (case r of (Inl e, t) \<Rightarrow> (Inl e, t) | (Inr x, t) \<Rightarrow> f x t)"

section \<open>The methods of \<^verbatim>\<open>PowerstoreRemoteSystem\<close>\<close>

text \<open>
  The body of the \<^verbatim>\<open>try\<close> of \<^verbatim>\<open>get_remote_system_details\<close>: by address when an
  address is given (the first match, or the empty answer itself), by id otherwise
  (the answer itself, truthy or not).
\<close>

definition get_remote_system_details_try ::
  "client \<Rightarrow> pyval \<Rightarrow> pyval \<Rightarrow> pyval \<Rightarrow> call list \<Rightarrow> (exn + pyval) \<times> call list" where
  "get_remote_system_details_try c remote_sys_name remote_sys_address remote_sys_id t =
     (if truthy remote_sys_address then
        (case protection_get_remote_system_by_mgmt_address c t remote_sys_address of
           Inl e \<Rightarrow> (Inl e, t @ [Get_remote_system_by_mgmt_address remote_sys_address])
         | Inr resp \<Rightarrow>
             (if resp \<noteq> [] then Inr (PDict (resp ! 0)) else Inr (PList (map PDict resp)),
              t @ [Get_remote_system_by_mgmt_address remote_sys_address]))
      else
        (case protection_get_remote_system_details c t remote_sys_id of
           Inl e \<Rightarrow> (Inl e, t @ [Get_remote_system_details remote_sys_id])
         | Inr resp \<Rightarrow> (Inr (PDict resp), t @ [Get_remote_system_details remote_sys_id])))"

text \<open>
  The handler: a 404-class failure returns \<^verbatim>\<open>None\<close>, any other exception goes to
  \<^verbatim>\<open>fail_json\<close>.
\<close>

definition get_remote_system_details ::
  "client \<Rightarrow> pyval \<Rightarrow> pyval \<Rightarrow> pyval \<Rightarrow> call list \<Rightarrow> pyval run" where
  "get_remote_system_details c remote_sys_name remote_sys_address remote_sys_id t =
     (case get_remote_system_details_try c remote_sys_name remote_sys_address remote_sys_id t of
        (Inr resp, t') \<Rightarrow> (Inr resp, t')
      | (Inl e, t') \<Rightarrow>
          (if is_http_404 e then (Inr PNone, t')
           else (Inl (Fail_json (Get_details_failed e)), t')))"

definition exchange_cert_dict :: "pyval \<Rightarrow> pyval \<Rightarrow> pyval \<Rightarrow> pyval \<Rightarrow> dict" where
  "exchange_cert_dict remote_user remote_password remote_address remote_port =
     [(''address'', remote_address),
      (''port'', remote_port),
      (''username'', remote_user),
      (''password'', remote_password),
      (''service'', PStr ''Replication_HTTP'')]"

definition exchange_certificates ::
  "client \<Rightarrow> pyval \<Rightarrow> pyval \<Rightarrow> pyval \<Rightarrow> pyval \<Rightarrow> call list \<Rightarrow> unit run" where
  "exchange_certificates c remote_user remote_password remote_address remote_port t =
     (let d = exchange_cert_dict remote_user remote_password remote_address remote_port in
      case configuration_exchange_certificate c t d of
        Inl e \<Rightarrow> (Inl (Fail_json (Exchange_certificate_failed e)), t @ [Exchange_certificate d])
      | Inr u \<Rightarrow> (Inr (), t @ [Exchange_certificate d]))"

definition create_remote_sys_dict :: "pyval \<Rightarrow> pyval \<Rightarrow> pyval \<Rightarrow> dict" where
  "create_remote_sys_dict remote_address description network_latency =
     [(''management_address'', remote_address),
      (''description'', description),
      (''data_network_latency'', network_latency)]"

text \<open>
  \<^verbatim>\<open>create_remote_system\<close> creates, then fetches the details by the id of the
  creation's answer (\<^verbatim>\<open>resp.get('id')\<close>); both calls are inside one \<^verbatim>\<open>try\<close>, so a
  failure of the fetch, a 404 too, is reported as a failed creation.
\<close>

definition create_remote_system ::
  "client \<Rightarrow> pyval \<Rightarrow> pyval \<Rightarrow> pyval \<Rightarrow> call list \<Rightarrow> (bool \<times> pyval) run" where
  "create_remote_system c remote_address description network_latency t =
     (let d = create_remote_sys_dict remote_address description network_latency;
          t1 = t @ [Create_remote_system d]
      in case protection_create_remote_system c t d of
        Inl e \<Rightarrow> (Inl (Fail_json (Create_failed e)), t1)
      | Inr resp \<Rightarrow>
          (let t2 = t1 @ [Get_remote_system_details (get resp ''id'')]
           in case protection_get_remote_system_details c t1 (get resp ''id'') of
             Inl e \<Rightarrow> (Inl (Fail_json (Create_failed e)), t2)
           | Inr remote_sys_details \<Rightarrow> (Inr (True, PDict remote_sys_details), t2)))"

definition modify_remote_system ::
  "client \<Rightarrow> pyval \<Rightarrow> dict \<Rightarrow> bool \<Rightarrow> call list \<Rightarrow> (bool \<times> pyval) run" where
  "modify_remote_system c remote_sys_id modify_dict is_async t =
     (case protection_modify_remote_system c t remote_sys_id modify_dict is_async of
        Inl e \<Rightarrow> (Inl (Fail_json (Modify_failed e)),
                   t @ [Modify_remote_system remote_sys_id modify_dict is_async])
      | Inr resp \<Rightarrow> (Inr (True, resp),
                      t @ [Modify_remote_system remote_sys_id modify_dict is_async]))"

definition delete_remote_system ::
  "client \<Rightarrow> pyval \<Rightarrow> bool \<Rightarrow> call list \<Rightarrow> (bool \<times> pyval) run" where
  "delete_remote_system c remote_sys_id is_async t =
     (case protection_delete_remote_system c t remote_sys_id is_async of
        Inl e \<Rightarrow> (Inl (Fail_json (Delete_failed e)),
                   t @ [Delete_remote_system remote_sys_id is_async])
      | Inr delete_resp \<Rightarrow> (Inr (True, delete_resp),
                             t @ [Delete_remote_system remote_sys_id is_async]))"

definition get_clusters :: "client \<Rightarrow> call list \<Rightarrow> (dict list) run" where
  "get_clusters c t =
     (case provisioning_get_cluster_list c t of
        Inl e \<Rightarrow> (Inl (Fail_json (Get_clusters_failed e)), t @ [Get_cluster_list])
      | Inr clusters \<Rightarrow> (Inr clusters, t @ [Get_cluster_list]))"

section \<open>\<^verbatim>\<open>perform_module_operation\<close>\<close>

datatype target_state = present | absent

text \<open>
  \<^verbatim>\<open>self.module.params\<close>, as far as the method reads it. The argument spec gives
  \<^verbatim>\<open>state\<close> two choices and makes it required; the other parameters are \<^verbatim>\<open>None\<close>
  when the task leaves them out and no default applies.
\<close>

record params =
  remote_user :: "string option"
  remote_password :: "string option"
  remote_port :: "int option"
  remote_name :: "string option"
  remote_id :: "string option"
  remote_address :: "string option"
  new_remote_address :: "string option"
  description :: "string option"
  network_latency :: "string option"
  wait_for_completion :: "bool option"
  state :: target_state

text \<open>
  The method tests its identifier parameters by truth value (\<^verbatim>\<open>if remote_sys_id\<close>,
  \<^verbatim>\<open>if not remote_sys_name\<close>): a parameter counts as supplied when it is neither
  \<^verbatim>\<open>None\<close> nor the empty string, and as omitted otherwise.
\<close>

definition supplied :: "string option \<Rightarrow> bool" where
  "supplied x = truthy (of_str x)"

text \<open>
  \<^verbatim>\<open>
  is_async = True
  if wait_for_completion is not None:
      is_async = not wait_for_completion
  \<close>
\<close>

definition is_async :: "params \<Rightarrow> bool" where
  "is_async p = (case wait_for_completion p of None \<Rightarrow> True | Some w \<Rightarrow> \<not> w)"

text \<open>The local variables of the method that its later blocks read and assign.\<close>

record vars =
  remote_sys_id :: pyval
  remote_sys_name :: pyval
  remote_sys_address :: pyval
  remote_sys_details :: pyval
  changed :: bool
  job_id :: pyval

definition initial_vars :: "params \<Rightarrow> pyval \<Rightarrow> vars" where
  "initial_vars p details =
     \<lparr>remote_sys_id = of_str (remote_id p),
      remote_sys_name = of_str (remote_name p),
      remote_sys_address = of_str (remote_address p),
      remote_sys_details = details,
      changed = False,
      job_id = PNone\<rparr>"

text \<open>
  \<^verbatim>\<open>
  clusters = self.get_clusters()
  if len(clusters) > 0:
      self.cluster_name = clusters[0]['name']
      self.cluster_global_id = clusters[0]['id']
  else:
      self.module.fail_json(msg="Unable to find any active cluster on this array")
  \<close>
  The two attributes are not read again; reading them can raise.
\<close>

definition cluster_check :: "dict list \<Rightarrow> failure + unit" where
  "cluster_check clusters =
     (if length clusters > 0 then
        and_then (subscript (PDict (clusters ! 0)) ''name'') (\<lambda>cluster_name.
        and_then (subscript (PDict (clusters ! 0)) ''id'') (\<lambda>cluster_global_id.
          Inr ()))
      else Inl (Fail_json No_active_cluster))"

text \<open>
  \<^verbatim>\<open>
  if remote_sys_name and not remote_sys_address and not remote_sys_id:
      self.module.fail_json(...)
  \<close>
\<close>

definition identifier_check :: "params \<Rightarrow> failure + unit" where
  "identifier_check p =
     (if supplied (remote_name p) \<and> \<not> supplied (remote_address p) \<and> \<not> supplied (remote_id p)
      then Inl (Fail_json Name_needs_address_or_id)
      else Inr ())"

text \<open>Everything before the lookup: the cluster query and the two checks.\<close>

definition before_lookup :: "client \<Rightarrow> params \<Rightarrow> unit run" where
  "before_lookup c p =
     then_do (get_clusters c []) (\<lambda>clusters t.
     then_do (cluster_check clusters, t) (\<lambda>u t.
       (identifier_check p, t)))"

text \<open>The run up to and including the lookup of the remote system.\<close>

definition lookup_step :: "client \<Rightarrow> params \<Rightarrow> pyval run" where
  "lookup_step c p =
     then_do (before_lookup c p) (\<lambda>u t.
       get_remote_system_details c
         (of_str (remote_name p)) (of_str (remote_address p)) (of_str (remote_id p)) t)"

text \<open>
  \<^verbatim>\<open>
  if remote_sys_details:
      if not remote_sys_id:
          remote_sys_id = remote_sys_details['id']
      if remote_sys_name and \
              remote_sys_name != remote_sys_details['name']:
          self.module.fail_json(...)
      if not remote_sys_name:
          remote_sys_name = remote_sys_details['name']
          if not remote_sys_address:
              remote_sys_address = \
                  remote_sys_details['management_address']
  \<close>
\<close>

definition cross_check_and_backfill :: "vars \<Rightarrow> failure + vars" where
  "cross_check_and_backfill l0 =
     (if truthy (remote_sys_details l0) then
        and_then
          (if \<not> truthy (remote_sys_id l0)
           then and_then (subscript (remote_sys_details l0) ''id'')
                  (\<lambda>v. Inr (l0\<lparr>remote_sys_id := v\<rparr>))
           else Inr l0) (\<lambda>l1.
        and_then
          (if truthy (remote_sys_name l1)
           then and_then (subscript (remote_sys_details l1) ''name'')
                  (\<lambda>v. if remote_sys_name l1 \<noteq> v then Inl (Fail_json Name_not_matching)
                       else Inr l1)
           else Inr l1) (\<lambda>l2.
        (if \<not> truthy (remote_sys_name l2)
         then and_then (subscript (remote_sys_details l2) ''name'') (\<lambda>v.
                let l3 = l2\<lparr>remote_sys_name := v\<rparr> in
                if \<not> truthy (remote_sys_address l3)
                then and_then (subscript (remote_sys_details l3) ''management_address'')
                       (\<lambda>a. Inr (l3\<lparr>remote_sys_address := a\<rparr>))
                else Inr l3)
         else Inr l2)))
      else Inr l0)"

text \<open>
  \<^verbatim>\<open>
  if not remote_sys_details and state == "present":
      if remote_sys_id or remote_sys_name:
          self.module.fail_json(msg=msg)
      self.exchange_certificates(
          remote_sys_user, remote_sys_password,
          remote_sys_address, remote_sys_port)
      changed, remote_sys_details = self.create_remote_system(
          remote_sys_address, description, network_latency)
      remote_sys_id = remote_sys_details['id']
  \<close>
\<close>

definition create_block :: "client \<Rightarrow> params \<Rightarrow> vars \<Rightarrow> call list \<Rightarrow> vars run" where
  "create_block c p l t =
     (if \<not> truthy (remote_sys_details l) \<and> state p = present then
        if truthy (remote_sys_id l) \<or> truthy (remote_sys_name l)
        then (Inl (Fail_json Id_or_name_at_creation), t)
        else
          then_do (exchange_certificates c (of_str (remote_user p)) (of_str (remote_password p))
                     (remote_sys_address l) (of_int_opt (remote_port p)) t) (\<lambda>u t.
          then_do (create_remote_system c (remote_sys_address l) (of_str (description p))
                     (of_str (network_latency p)) t) (\<lambda>(ch, details) t.
          then_do (subscript details ''id'', t) (\<lambda>i t.
            (Inr (l\<lparr>changed := ch, remote_sys_details := details, remote_sys_id := i\<rparr>), t))))
      else (Inr l, t))"

text \<open>
  \<^verbatim>\<open>
  if remote_sys_details and state == "absent":
      changed, job_id = self.delete_remote_system(remote_sys_id, is_async)
      remote_sys_details = None
  \<close>
\<close>

definition delete_block :: "client \<Rightarrow> params \<Rightarrow> vars \<Rightarrow> call list \<Rightarrow> vars run" where
  "delete_block c p l t =
     (if truthy (remote_sys_details l) \<and> state p = absent then
        then_do (delete_remote_system c (remote_sys_id l) (is_async p) t) (\<lambda>(ch, resp) t.
          (Inr (l\<lparr>changed := ch, job_id := resp, remote_sys_details := PNone\<rparr>), t))
      else (Inr l, t))"

text \<open>
  \<^verbatim>\<open>
  if remote_sys_details and state == "present":
      modify_remote_sys_dict = {
          'management_address': new_remote_sys_address,
          'description': description,
          'data_network_latency': network_latency
      }
      to_modify = modify_remote_system_required(
          remote_sys_details, modify_remote_sys_dict)
      if to_modify:
          changed, resp = \
              self.modify_remote_system(
                  remote_sys_id, modify_remote_sys_dict, is_async)
          if is_async:
              job_id = resp
          else:
              remote_sys_details = self.get_remote_system_details(
                  remote_sys_id=remote_sys_id)
  \<close>
  \<^verbatim>\<open>keys()\<close> exists on a dictionary only.
\<close>

definition modify_remote_sys_dict :: "params \<Rightarrow> dict" where
  "modify_remote_sys_dict p =
     [(''management_address'', of_str (new_remote_address p)),
      (''description'', of_str (description p)),
      (''data_network_latency'', of_str (network_latency p))]"

definition update_block :: "client \<Rightarrow> params \<Rightarrow> vars \<Rightarrow> call list \<Rightarrow> vars run" where
  "update_block c p l t =
     (if truthy (remote_sys_details l) \<and> state p = present then
        (case remote_sys_details l of
           PDict d \<Rightarrow>
             if modify_remote_system_required d (modify_remote_sys_dict p) then
               then_do (modify_remote_system c (remote_sys_id l) (modify_remote_sys_dict p)
                          (is_async p) t) (\<lambda>(ch, resp) t.
                 if is_async p then (Inr (l\<lparr>changed := ch, job_id := resp\<rparr>), t)
                 else
                   then_do (get_remote_system_details c PNone PNone (remote_sys_id l) t)
                     (\<lambda>details t. (Inr (l\<lparr>changed := ch, remote_sys_details := details\<rparr>), t)))
             else (Inr l, t)
         | PNone \<Rightarrow> (Inl AttributeError, t)
         | PBool b \<Rightarrow> (Inl AttributeError, t)
         | PInt i \<Rightarrow> (Inl AttributeError, t)
         | PStr s \<Rightarrow> (Inl AttributeError, t)
         | PList xs \<Rightarrow> (Inl AttributeError, t))
      else (Inr l, t))"

text \<open>
  \<^verbatim>\<open>
  result['changed'] = changed
  result['job_details'] = job_id
  if not job_id:
      result['remote_system_details'] = remote_sys_details
  self.module.exit_json(**result)
  \<close>
\<close>

definition exit_json :: "vars \<Rightarrow> dict" where
  "exit_json l =
     [(''changed'', PBool (changed l)), (''job_details'', job_id l)] @
     (if \<not> truthy (job_id l) then [(''remote_system_details'', remote_sys_details l)] else [])"

text \<open>The method from the lookup's answer on.\<close>

definition reconcile :: "client \<Rightarrow> params \<Rightarrow> pyval \<Rightarrow> call list \<Rightarrow> dict run" where
  "reconcile c p details t =
     then_do (cross_check_and_backfill (initial_vars p details), t) (\<lambda>l t.
     then_do (create_block c p l t) (\<lambda>l t.
     then_do (delete_block c p l t) (\<lambda>l t.
     then_do (update_block c p l t) (\<lambda>l t.
       (Inr (exit_json l), t)))))"

text \<open>
  A run of the module: the result passed to \<^verbatim>\<open>exit_json\<close> or the failure that ended
  it, and the calls made on the Array Client, in order.
\<close>

definition perform_module_operation :: "client \<Rightarrow> params \<Rightarrow> dict run" where
  "perform_module_operation c p = then_do (lookup_step c p) (reconcile c p)"



section \<open>An example array and example tasks\<close>

text \<open>
  An array with one active cluster and one registered remote system, \<open>abc\<close> at
  10.1.1.1. It answers a query for an unknown id with a 404, an asynchronous modify
  or delete with a job, a synchronous one with nothing, and a creation with the new
  id \<open>new1\<close>, whose details it knows from then on.
\<close>

definition cluster1 :: dict where
  "cluster1 = [(''id'', PStr ''0''), (''name'', PStr ''cluster1'')]"

definition system_abc :: dict where
  "system_abc =
     [(''id'', PStr ''abc''),
      (''name'', PStr ''RT-D0100''),
      (''management_address'', PStr ''10.1.1.1''),
      (''description'', PStr ''old''),
      (''data_network_latency'', PStr ''Low'')]"

definition system_new1 :: dict where
  "system_new1 =
     [(''id'', PStr ''new1''),
      (''name'', PStr ''RT-D0200''),
      (''management_address'', PStr ''10.2.2.2''),
      (''description'', PNone),
      (''data_network_latency'', PStr ''Low'')]"

definition job1 :: pyval where
  "job1 = PDict [(''id'', PStr ''job1'')]"

definition not_found :: exn where
  "not_found = PowerStoreException HTTP_ERR (PStr ''404'')"

definition example_array :: client where
  "example_array =
     \<lparr>provisioning_get_cluster_list = (\<lambda>t. Inr [cluster1]),
      protection_get_remote_system_by_mgmt_address =
        (\<lambda>t a. Inr (if a = PStr ''10.1.1.1'' then [system_abc] else [])),
      protection_get_remote_system_details =
        (\<lambda>t i. if i = PStr ''abc'' then Inr system_abc
               else if i = PStr ''new1'' \<and> list_ex is_create t then Inr system_new1
               else Inl not_found),
      configuration_exchange_certificate = (\<lambda>t d. Inr ()),
      protection_create_remote_system = (\<lambda>t d. Inr [(''id'', PStr ''new1'')]),
      protection_modify_remote_system = (\<lambda>t i d a. Inr (if a then job1 else PNone)),
      protection_delete_remote_system = (\<lambda>t i a. Inr (if a then job1 else PNone))\<rparr>"

text \<open>The same array when the peer refuses the certificate exchange.\<close>

definition refusing_array :: client where
  "refusing_array =
     example_array\<lparr>configuration_exchange_certificate := (\<lambda>t d. Inl Other_exception)\<rparr>"

text \<open>The same array when its remote-system queries fail with something else than a 404.\<close>

definition failing_array :: client where
  "failing_array =
     example_array\<lparr>protection_get_remote_system_details := (\<lambda>t i. Inl Other_exception)\<rparr>"

text \<open>A task that sets nothing but \<open>state\<close>; the argument spec's defaults fill the rest.\<close>

definition task :: params where
  "task =
     \<lparr>remote_user = None, remote_password = None, remote_port = Some 443,
      remote_name = None, remote_id = None, remote_address = None,
      new_remote_address = None, description = None, network_latency = None,
      wait_for_completion = Some False, state = present\<rparr>"

definition task_get_abc :: params where
  "task_get_abc = task\<lparr>remote_id := Some ''abc''\<rparr>"

definition task_modify_abc :: params where
  "task_modify_abc =
     task\<lparr>remote_id := Some ''abc'', description := Some ''new'', network_latency := Some ''Low''\<rparr>"


definition task_delete_zzz :: params where
  "task_delete_zzz = task\<lparr>remote_id := Some ''zzz'', state := absent\<rparr>"

definition task_present_zzz :: params where
  "task_present_zzz = task\<lparr>remote_id := Some ''zzz''\<rparr>"

definition task_create :: params where
  "task_create =
     task\<lparr>remote_address := Some ''10.2.2.2'', remote_user := Some ''admin'',
          remote_password := Some ''x''\<rparr>"


definition task_wrong_name_old_description :: params where
  "task_wrong_name_old_description =
     task\<lparr>remote_address := Some ''10.1.1.1'', remote_name := Some ''other'',
          description := Some ''old''\<rparr>"


definition task_keep_abc :: params where
  "task_keep_abc = task\<lparr>remote_id := Some ''abc'', description := Some ''old''\<rparr>"


text \<open>
  The fields of a candidate patch that differ from the fetched record: not
  \<^verbatim>\<open>None\<close>, and not the record's value.
\<close>

definition differing_fields :: "dict \<Rightarrow> dict \<Rightarrow> dict" where
  "differing_fields details passed_args =
     filter (\<lambda>(k, v). v \<noteq> PNone \<and> map_of details k \<noteq> Some v) passed_args"

section \<open>Facts about runs\<close>

lemma then_do_Inl: "then_do (Inl e, t) f = (Inl e, t)"
  by (simp add: then_do_def)

lemma then_do_Inr: "then_do (Inr x, t) f = f x t"
  by (simp add: then_do_def)

lemma and_then_Inl: "and_then (Inl e) f = Inl e"
  by (simp add: and_then_def)

lemma and_then_Inr: "and_then (Inr x) f = f x"
  by (simp add: and_then_def)

lemmas run_simps = then_do_Inl then_do_Inr and_then_Inl and_then_Inr


lemma and_then_InrE:
  assumes "and_then r f = Inr y"
  obtains x where "r = Inr x" and "f x = Inr y"
  using assms by (cases r) (auto simp: and_then_def)

lemma initial_vars_sel:
  "remote_sys_id (initial_vars p d) = of_str (remote_id p)"
  "remote_sys_name (initial_vars p d) = of_str (remote_name p)"
  "remote_sys_address (initial_vars p d) = of_str (remote_address p)"
  "remote_sys_details (initial_vars p d) = d"
  "changed (initial_vars p d) = False"
  "job_id (initial_vars p d) = PNone"
  by (simp_all add: initial_vars_def)

section \<open>The calls each method makes\<close>

lemma get_clusters_calls: "get_clusters c t = (r, t') \<Longrightarrow> t' = t @ [Get_cluster_list]"
  by (auto simp: get_clusters_def split: sum.splits)

lemma get_remote_system_details_calls:
  "get_remote_system_details c n a i t = (r, t') \<Longrightarrow>
     t' = t @ [if truthy a then Get_remote_system_by_mgmt_address a else Get_remote_system_details i]"
  by (auto simp: get_remote_system_details_def get_remote_system_details_try_def
           split: sum.splits if_splits prod.splits)

lemma before_lookup_calls:
  "before_lookup c p = (r, t) \<Longrightarrow> t = [Get_cluster_list]"
  by (auto simp: before_lookup_def then_do_def split: sum.splits prod.splits
           dest: get_clusters_calls)

lemma lookup_step_calls:
  assumes "lookup_step c p = (r, t)"
  shows "\<forall>x \<in> set t. \<not> mutating x"
proof (cases "before_lookup c p")
  case (Pair r0 t0)
  then have t0: "t0 = [Get_cluster_list]" by (rule before_lookup_calls)
  show ?thesis
  proof (cases r0)
    case (Inl e)
    with Pair assms t0 show ?thesis
      by (auto simp: lookup_step_def run_simps mutating_def)
  next
    case (Inr u)
    with Pair assms have "get_remote_system_details c (of_str (remote_name p))
        (of_str (remote_address p)) (of_str (remote_id p)) t0 = (r, t)"
      by (simp add: lookup_step_def run_simps)
    from get_remote_system_details_calls[OF this] t0 show ?thesis
      by (auto simp: mutating_def)
  qed
qed

lemma modify_remote_system_calls:
  "modify_remote_system c i d a t = (r, t') \<Longrightarrow> t' = t @ [Modify_remote_system i d a]"
  by (auto simp: modify_remote_system_def split: sum.splits)


lemma create_remote_system_calls:
  assumes "create_remote_system c a d n t = (r, t')"
  shows "\<exists>rest. t' = t @ Create_remote_system (create_remote_sys_dict a d n) # rest
               \<and> (\<forall>x \<in> set rest. \<not> mutating x)"
  using assms
  by (auto simp: create_remote_system_def Let_def mutating_def split: sum.splits)

lemma update_block_calls:
  assumes "update_block c p l t = (r, t')"
  shows "t' = t \<or>
         (\<exists>d. remote_sys_details l = PDict d \<and> state p = present \<and>
              modify_remote_system_required d (modify_remote_sys_dict p) \<and>
              (\<exists>rest. t' = t @ Modify_remote_system (remote_sys_id l) (modify_remote_sys_dict p)
                                (is_async p) # rest
                      \<and> (\<forall>x \<in> set rest. \<not> mutating x)))"
proof (cases "truthy (remote_sys_details l) \<and> state p = present")
  case False
  with assms show ?thesis by (auto simp: update_block_def)
next
  case True
  show ?thesis
  proof (cases "remote_sys_details l")
    case (PDict d)
    show ?thesis
    proof (cases "modify_remote_system_required d (modify_remote_sys_dict p)")
      case False
      with assms True PDict show ?thesis by (simp add: update_block_def)
    next
      case req: True
      obtain r1 t1 where m: "modify_remote_system c (remote_sys_id l) (modify_remote_sys_dict p)
                            (is_async p) t = (r1, t1)"
        by (cases "modify_remote_system c (remote_sys_id l) (modify_remote_sys_dict p) (is_async p) t")
      then have t1: "t1 = t @ [Modify_remote_system (remote_sys_id l) (modify_remote_sys_dict p) (is_async p)]"
        by (rule modify_remote_system_calls)
      have "\<exists>rest. t' = t1 @ rest \<and> (\<forall>x \<in> set rest. \<not> mutating x)"
      proof (cases r1)
        case (Inl e)
        with assms True PDict req m show ?thesis
          by (simp add: update_block_def run_simps)
      next
        case (Inr chresp)
        obtain ch resp where chresp: "chresp = (ch, resp)" by (cases chresp)
        show ?thesis
        proof (cases "is_async p")
          case True
          with assms \<open>truthy (remote_sys_details l) \<and> state p = present\<close> PDict req m Inr chresp
          show ?thesis by (simp add: update_block_def run_simps)
        next
          case False
          obtain r2 t2 where g: "get_remote_system_details c PNone PNone (remote_sys_id l) t1 = (r2, t2)"
            by (cases "get_remote_system_details c PNone PNone (remote_sys_id l) t1")
          from get_remote_system_details_calls[OF g]
          have t2: "t2 = t1 @ [Get_remote_system_details (remote_sys_id l)]" by simp
          from assms True PDict req m Inr chresp False g have "t' = t2"
            by (cases r2) (auto simp: update_block_def run_simps)
          with t2 show ?thesis by (simp add: mutating_def)
        qed
      qed
      with t1 True PDict req show ?thesis by auto
    qed
  qed (use assms True in \<open>auto simp: update_block_def\<close>)
qed

lemma update_block_no_exchange_or_create:
  assumes "update_block c p l t = (r, t')"
  shows "\<exists>rest. t' = t @ rest \<and> (\<forall>x \<in> set rest. \<not> is_exchange x \<and> \<not> is_create x)"
  using update_block_calls[OF assms] by (auto simp: mutating_def)

section \<open>The cross-check and the backfill\<close>

lemma not_truthy_skips_check:
  "\<not> truthy d \<Longrightarrow> cross_check_and_backfill (initial_vars p d) = Inr (initial_vars p d)"
  by (simp add: cross_check_and_backfill_def initial_vars_def)

lemma cross_check_and_backfill_found:
  assumes "truthy d" and "subscript d ''id'' = Inr i" and "subscript d ''name'' = Inr n"
    and "subscript d ''management_address'' = Inr a"
  shows "cross_check_and_backfill (initial_vars p d) =
           (if supplied (remote_name p) \<and> of_str (remote_name p) \<noteq> n
            then Inl (Fail_json Name_not_matching)
            else Inr \<lparr>remote_sys_id = (if supplied (remote_id p) then of_str (remote_id p) else i),
                remote_sys_name = (if supplied (remote_name p) then of_str (remote_name p) else n),
                remote_sys_address =
                  (if \<not> supplied (remote_name p) \<and> \<not> supplied (remote_address p) then a
                   else of_str (remote_address p)),
                remote_sys_details = d, changed = False, job_id = PNone\<rparr>)"
  using assms
  by (simp add: cross_check_and_backfill_def initial_vars_def supplied_def run_simps Let_def)



section \<open>When a modification is needed\<close>

lemma modify_required_loop_iff:
  "modify_required_loop ks rsd pa \<longleftrightarrow>
     (\<exists>k \<in> set ks. k \<in> set (keys pa) \<and> map_of pa k \<noteq> Some PNone \<and> map_of rsd k \<noteq> map_of pa k)"
  by (induction ks) auto

lemma not_required_if_null_or_equal:
  assumes "\<forall>(k, v) \<in> set pa. v = PNone \<or> map_of r k = Some v"
  shows "\<not> modify_remote_system_required r pa"
proof
  assume "modify_remote_system_required r pa"
  then obtain k where k: "k \<in> set (keys pa)" "map_of pa k \<noteq> Some PNone" "map_of r k \<noteq> map_of pa k"
    by (auto simp: modify_remote_system_required_def modify_required_loop_iff)
  from k(1) obtain v where v: "map_of pa k = Some v"
    by (cases "map_of pa k") (auto simp: keys_def map_of_eq_None_iff)
  then have "(k, v) \<in> set pa" by (rule map_of_SomeD)
  with assms have "v = PNone \<or> map_of r k = Some v" by auto
  with k v show False by auto
qed

lemma required_if_differs:
  assumes "(k, v) \<in> set pa" and "distinct (keys pa)" and "v \<noteq> PNone"
    and "k \<in> set (keys r)" and "map_of r k \<noteq> Some v"
  shows "modify_remote_system_required r pa"
proof -
  have pa: "map_of pa k = Some v"
    using assms(1,2) by (simp add: keys_def)
  have "k \<in> set (keys pa)"
    using assms(1) by (auto simp: keys_def intro: rev_image_eqI)
  with pa assms(3,4,5) show ?thesis
    by (auto simp: modify_remote_system_required_def modify_required_loop_iff)
qed

lemma modify_remote_sys_dict_distinct: "distinct (keys (modify_remote_sys_dict p))"
  by (simp add: modify_remote_sys_dict_def keys_def)

section \<open>What each block leaves behind\<close>




section \<open>The modify branch\<close>

text \<open>
  Claim C1, as the code has it. Let the state be \<open>present\<close>, let the lookup find a
  record that carries \<open>id\<close>, \<open>name\<close> and \<open>management_address\<close>, let the supplied
  \<open>remote_name\<close>, if any, be the record's name, and let one field of the candidate patch
  be non-null and differ from the record's value of the same key. Then the run makes
  exactly one modify call: it comes right after the lookup, with the resolved id, the
  asynchronous flag, and the whole candidate patch (its three keys, each with the
  desired value or \<^verbatim>\<open>None\<close>); no other mutating call is made before or after it.
\<close>

theorem present_and_differing_issues_one_modify:
  assumes "state p = present" and "lookup_step c p = (Inr (PDict r), t)"
    and "map_of r ''id'' = Some i" and "map_of r ''name'' = Some n"
    and "map_of r ''management_address'' = Some a"
    and "supplied (remote_name p) \<longrightarrow> of_str (remote_name p) = n"
    and "\<exists>(k, v) \<in> set (modify_remote_sys_dict p).
           v \<noteq> PNone \<and> k \<in> set (keys r) \<and> map_of r k \<noteq> Some v"
  shows "\<exists>rest. snd (perform_module_operation c p) =
                  t @ Modify_remote_system
                        (if supplied (remote_id p) then of_str (remote_id p) else i)
                        (modify_remote_sys_dict p) (is_async p) # rest
               \<and> (\<forall>x \<in> set t. \<not> mutating x) \<and> (\<forall>x \<in> set rest. \<not> mutating x)"
proof -
  let ?l = "\<lparr>remote_sys_id = (if supplied (remote_id p) then of_str (remote_id p) else i),
             remote_sys_name = (if supplied (remote_name p) then of_str (remote_name p) else n),
             remote_sys_address =
               (if \<not> supplied (remote_name p) \<and> \<not> supplied (remote_address p) then a
                else of_str (remote_address p)),
             remote_sys_details = PDict r, changed = False, job_id = PNone\<rparr>"
  have r: "r \<noteq> []" using assms(3) by auto
  have req: "modify_remote_system_required r (modify_remote_sys_dict p)"
    using assms(7) modify_remote_sys_dict_distinct[of p]
    by (auto intro: required_if_differs)
  have cc: "cross_check_and_backfill (initial_vars p (PDict r)) = Inr ?l"
    using r assms(3-6) by (simp add: cross_check_and_backfill_found)
  obtain r' t' where u: "update_block c p ?l t = (r', t')"
    by (cases "update_block c p ?l t")
  have run: "snd (perform_module_operation c p) = t'"
    using assms(1,2) r cc u
    by (cases r') (simp_all add: perform_module_operation_def reconcile_def run_simps
                      create_block_def delete_block_def)
  have "t' \<noteq> t"
    using u assms(1) r req
    by (auto simp: update_block_def modify_remote_system_def then_do_def
                   get_remote_system_details_def get_remote_system_details_try_def
             split: sum.splits prod.splits if_splits)
  with update_block_calls[OF u] obtain rest where
    "t' = t @ Modify_remote_system (remote_sys_id ?l) (modify_remote_sys_dict p) (is_async p) # rest"
    "\<forall>x \<in> set rest. \<not> mutating x"
    by auto
  with run lookup_step_calls[OF assms(2)] show ?thesis by auto
qed

theorem present_and_differing_issues_one_modify_witness:
  "state task_modify_abc = present
   \<and> lookup_step example_array task_modify_abc =
       (Inr (PDict system_abc), [Get_cluster_list, Get_remote_system_details (PStr ''abc'')])
   \<and> map_of system_abc ''id'' = Some (PStr ''abc'')
   \<and> map_of system_abc ''name'' = Some (PStr ''RT-D0100'')
   \<and> map_of system_abc ''management_address'' = Some (PStr ''10.1.1.1'')
   \<and> \<not> supplied (remote_name task_modify_abc)
   \<and> (\<exists>(k, v) \<in> set (modify_remote_sys_dict task_modify_abc).
         v \<noteq> PNone \<and> k \<in> set (keys system_abc) \<and> map_of system_abc k \<noteq> Some v)
   \<and> (\<exists>rest. snd (perform_module_operation example_array task_modify_abc) =
          [Get_cluster_list, Get_remote_system_details (PStr ''abc'')] @
          Modify_remote_system (PStr ''abc'')
            [(''management_address'', PNone), (''description'', PStr ''new''),
             (''data_network_latency'', PStr ''Low'')] True # rest
        \<and> (\<forall>x \<in> set rest. \<not> mutating x))"
proof -
  have h1: "state task_modify_abc = present" by code_simp
  have h2: "lookup_step example_array task_modify_abc =
       (Inr (PDict system_abc), [Get_cluster_list, Get_remote_system_details (PStr ''abc'')])"
    by code_simp
  have h3: "map_of system_abc ''id'' = Some (PStr ''abc'')" by code_simp
  have h4: "map_of system_abc ''name'' = Some (PStr ''RT-D0100'')" by code_simp
  have h5: "map_of system_abc ''management_address'' = Some (PStr ''10.1.1.1'')" by code_simp
  have h6: "\<not> supplied (remote_name task_modify_abc)" by code_simp
  then have h6': "supplied (remote_name task_modify_abc) \<longrightarrow>
                    of_str (remote_name task_modify_abc) = PStr ''RT-D0100''" by simp
  have h7: "\<exists>(k, v) \<in> set (modify_remote_sys_dict task_modify_abc).
              v \<noteq> PNone \<and> k \<in> set (keys system_abc) \<and> map_of system_abc k \<noteq> Some v"
    by code_simp
  have e1: "(if supplied (remote_id task_modify_abc) then of_str (remote_id task_modify_abc)
             else PStr ''abc'') = PStr ''abc''" by code_simp
  have e2: "modify_remote_sys_dict task_modify_abc =
              [(''management_address'', PNone), (''description'', PStr ''new''),
               (''data_network_latency'', PStr ''Low'')]" by code_simp
  have e3: "is_async task_modify_abc = True" by code_simp
  from present_and_differing_issues_one_modify[OF h1 h2 h3 h4 h5 h6' h7]
  have "\<exists>rest. snd (perform_module_operation example_array task_modify_abc) =
          [Get_cluster_list, Get_remote_system_details (PStr ''abc'')] @
          Modify_remote_system (PStr ''abc'')
            [(''management_address'', PNone), (''description'', PStr ''new''),
             (''data_network_latency'', PStr ''Low'')] True # rest
        \<and> (\<forall>x \<in> set rest. \<not> mutating x)"
    unfolding e1 e2 e3 by blast
  with h1 h2 h3 h4 h5 h6 h7 show ?thesis by blast
qed

text \<open>
  The patch of that call is not the set of differing fields. The task below changes
  the description of \<open>abc\<close> and repeats its latency \<open>Low\<close>: only the description
  differs, and the call carries all three keys, the unchanged latency and the null
  address among them.
\<close>

theorem patch_is_not_the_differing_fields:
  "snd (perform_module_operation example_array task_modify_abc) =
     [Get_cluster_list, Get_remote_system_details (PStr ''abc''),
      Modify_remote_system (PStr ''abc'')
        [(''management_address'', PNone), (''description'', PStr ''new''),
         (''data_network_latency'', PStr ''Low'')] True]
   \<and> differing_fields system_abc (modify_remote_sys_dict task_modify_abc) =
       [(''description'', PStr ''new'')]
   \<and> modify_remote_sys_dict task_modify_abc \<noteq>
       differing_fields system_abc (modify_remote_sys_dict task_modify_abc)
   \<and> map_of system_abc ''data_network_latency'' = Some (PStr ''Low'')
   \<and> lookup_step example_array task_modify_abc =
       (Inr (PDict system_abc), [Get_cluster_list, Get_remote_system_details (PStr ''abc'')])
   \<and> state task_modify_abc = present"
  by code_simp

text \<open>
  Claim C3, as the code has it. Let the state be \<open>present\<close>, let the lookup find a
  record that carries \<open>id\<close>, \<open>name\<close> and \<open>management_address\<close>, let the supplied
  \<open>remote_name\<close>, if any, be the record's name, and let every field of the candidate patch
  be null or equal to the record's value of the same key. Then the run is a no-op: it
  exits with \<open>changed = False\<close>, no job and the fetched record itself as
  \<open>remote_system_details\<close>, and its calls are those of the lookup, none of them
  mutating.
\<close>

theorem present_and_unchanged_is_noop:
  assumes "state p = present" and "lookup_step c p = (Inr (PDict r), t)"
    and "map_of r ''id'' = Some i" and "map_of r ''name'' = Some n"
    and "map_of r ''management_address'' = Some a"
    and "supplied (remote_name p) \<longrightarrow> of_str (remote_name p) = n"
    and "\<forall>(k, v) \<in> set (modify_remote_sys_dict p). v = PNone \<or> map_of r k = Some v"
  shows "perform_module_operation c p =
           (Inr [(''changed'', PBool False), (''job_details'', PNone),
                 (''remote_system_details'', PDict r)], t)
         \<and> (\<forall>x \<in> set t. \<not> mutating x)"
proof
  have r: "r \<noteq> []" using assms(3) by auto
  have req: "\<not> modify_remote_system_required r (modify_remote_sys_dict p)"
    using assms(7) by (rule not_required_if_null_or_equal)
  have "cross_check_and_backfill (initial_vars p (PDict r)) =
           Inr \<lparr>remote_sys_id = (if supplied (remote_id p) then of_str (remote_id p) else i),
                remote_sys_name = (if supplied (remote_name p) then of_str (remote_name p) else n),
                remote_sys_address =
                  (if \<not> supplied (remote_name p) \<and> \<not> supplied (remote_address p) then a
                   else of_str (remote_address p)),
                remote_sys_details = PDict r, changed = False, job_id = PNone\<rparr>"
    using r assms(3-6) by (simp add: cross_check_and_backfill_found)
  then show "perform_module_operation c p =
           (Inr [(''changed'', PBool False), (''job_details'', PNone),
                 (''remote_system_details'', PDict r)], t)"
    using assms(1,2) r req
    by (simp add: perform_module_operation_def reconcile_def run_simps
                  create_block_def delete_block_def update_block_def exit_json_def)
  show "\<forall>x \<in> set t. \<not> mutating x"
    using assms(2) by (rule lookup_step_calls)
qed

theorem present_and_unchanged_is_noop_witness:
  "state task_keep_abc = present
   \<and> lookup_step example_array task_keep_abc =
       (Inr (PDict system_abc), [Get_cluster_list, Get_remote_system_details (PStr ''abc'')])
   \<and> map_of system_abc ''id'' = Some (PStr ''abc'')
   \<and> map_of system_abc ''name'' = Some (PStr ''RT-D0100'')
   \<and> map_of system_abc ''management_address'' = Some (PStr ''10.1.1.1'')
   \<and> \<not> supplied (remote_name task_keep_abc)
   \<and> modify_remote_sys_dict task_keep_abc =
       [(''management_address'', PNone), (''description'', PStr ''old''),
        (''data_network_latency'', PNone)]
   \<and> map_of system_abc ''description'' = Some (PStr ''old'')
   \<and> perform_module_operation example_array task_keep_abc =
       (Inr [(''changed'', PBool False), (''job_details'', PNone),
             (''remote_system_details'', PDict system_abc)],
        [Get_cluster_list, Get_remote_system_details (PStr ''abc'')])"
proof -
  have h1: "state task_keep_abc = present" by code_simp
  have h2: "lookup_step example_array task_keep_abc =
       (Inr (PDict system_abc), [Get_cluster_list, Get_remote_system_details (PStr ''abc'')])"
    by code_simp
  have h3: "map_of system_abc ''id'' = Some (PStr ''abc'')" by code_simp
  have h4: "map_of system_abc ''name'' = Some (PStr ''RT-D0100'')" by code_simp
  have h5: "map_of system_abc ''management_address'' = Some (PStr ''10.1.1.1'')" by code_simp
  have h6: "\<not> supplied (remote_name task_keep_abc)" by code_simp
  then have h6': "supplied (remote_name task_keep_abc) \<longrightarrow>
                    of_str (remote_name task_keep_abc) = PStr ''RT-D0100''" by simp
  have d: "modify_remote_sys_dict task_keep_abc =
       [(''management_address'', PNone), (''description'', PStr ''old''),
        (''data_network_latency'', PNone)]" by code_simp
  have o: "map_of system_abc ''description'' = Some (PStr ''old'')" by code_simp
  have h7: "\<forall>(k, v) \<in> set (modify_remote_sys_dict task_keep_abc).
              v = PNone \<or> map_of system_abc k = Some v"
    unfolding d using o by simp
  from present_and_unchanged_is_noop[OF h1 h2 h3 h4 h5 h6' h7] h1 h2 h3 h4 h5 h6 d o
  show ?thesis by blast
qed

text \<open>
  Without the condition on the name the run is not a no-op. The task below finds
  \<open>abc\<close> by its address and asks for the description \<open>abc\<close> already has, under a
  name that is not the found one: the run ends in the failure of the name cross-check
  and returns no result.
\<close>

theorem name_mismatch_is_not_a_noop:
  "state task_wrong_name_old_description = present
   \<and> lookup_step example_array task_wrong_name_old_description =
       (Inr (PDict system_abc),
        [Get_cluster_list, Get_remote_system_by_mgmt_address (PStr ''10.1.1.1'')])
   \<and> truthy (PDict system_abc)
   \<and> modify_remote_sys_dict task_wrong_name_old_description =
       [(''management_address'', PNone), (''description'', PStr ''old''),
        (''data_network_latency'', PNone)]
   \<and> map_of system_abc ''description'' = Some (PStr ''old'')
   \<and> perform_module_operation example_array task_wrong_name_old_description =
       (Inl (Fail_json Name_not_matching),
        [Get_cluster_list, Get_remote_system_by_mgmt_address (PStr ''10.1.1.1'')])"
  by code_simp

section \<open>The create branch\<close>

text \<open>
  Claim C2. On the create path (state \<open>present\<close>, the lookup's answer falsy, neither
  \<open>remote_id\<close> nor \<open>remote_name\<close> supplied) the calls of the run are those of the lookup,
  then the certificate exchange, then the rest. Neither the lookup's calls nor the rest
  contain an exchange, so there is exactly one; no creation precedes it. If the exchange
  raises, nothing follows it and the run fails with the exchange's failure; if it
  returns, the next call is the creation, and no second creation follows.
\<close>

theorem exchange_once_and_before_create:
  assumes "state p = present" and "lookup_step c p = (Inr d, t)" and "\<not> truthy d"
    and "\<not> supplied (remote_id p)" and "\<not> supplied (remote_name p)"
  shows "\<exists>rest. snd (perform_module_operation c p) =
                  t @ Exchange_certificate
                        (exchange_cert_dict (of_str (remote_user p)) (of_str (remote_password p))
                           (of_str (remote_address p)) (of_int_opt (remote_port p))) # rest
          \<and> (\<forall>y \<in> set t. \<not> is_exchange y \<and> \<not> is_create y)
          \<and> (\<forall>y \<in> set rest. \<not> is_exchange y)
          \<and> (\<forall>e. configuration_exchange_certificate c t
                     (exchange_cert_dict (of_str (remote_user p)) (of_str (remote_password p))
                        (of_str (remote_address p)) (of_int_opt (remote_port p))) = Inl e
                 \<longrightarrow> rest = [] \<and>
                     fst (perform_module_operation c p) =
                       Inl (Fail_json (Exchange_certificate_failed e)))
          \<and> (\<forall>u. configuration_exchange_certificate c t
                     (exchange_cert_dict (of_str (remote_user p)) (of_str (remote_password p))
                        (of_str (remote_address p)) (of_int_opt (remote_port p))) = Inr u
                 \<longrightarrow> (\<exists>rest'. rest = Create_remote_system
                                        (create_remote_sys_dict (of_str (remote_address p))
                                           (of_str (description p)) (of_str (network_latency p)))
                                      # rest'
                             \<and> (\<forall>y \<in> set rest'. \<not> is_exchange y \<and> \<not> is_create y)))"
proof -
  let ?x = "exchange_cert_dict (of_str (remote_user p)) (of_str (remote_password p))
              (of_str (remote_address p)) (of_int_opt (remote_port p))"
  let ?t1 = "t @ [Exchange_certificate ?x]"
  let ?l = "initial_vars p d"
  have pre: "\<forall>y \<in> set t. \<not> is_exchange y \<and> \<not> is_create y"
    using lookup_step_calls[OF assms(2)] by (auto simp: mutating_def)
  have run: "perform_module_operation c p =
               then_do (create_block c p ?l t) (\<lambda>l t.
               then_do (update_block c p l t) (\<lambda>l t. (Inr (exit_json l), t)))"
    using assms(1,2,3)
    by (simp add: perform_module_operation_def reconcile_def run_simps not_truthy_skips_check
                  delete_block_def)
  have cb: "create_block c p ?l t =
              then_do (exchange_certificates c (of_str (remote_user p)) (of_str (remote_password p))
                         (of_str (remote_address p)) (of_int_opt (remote_port p)) t) (\<lambda>u t.
              then_do (create_remote_system c (of_str (remote_address p)) (of_str (description p))
                         (of_str (network_latency p)) t) (\<lambda>(ch, details) t.
              then_do (subscript details ''id'', t) (\<lambda>i t.
                (Inr (?l\<lparr>changed := ch, remote_sys_details := details, remote_sys_id := i\<rparr>), t))))"
    using assms(1,3,4,5) by (simp add: create_block_def initial_vars_sel supplied_def)
  show ?thesis
  proof (cases "configuration_exchange_certificate c t ?x")
    case (Inl e)
    then have "perform_module_operation c p = (Inl (Fail_json (Exchange_certificate_failed e)), ?t1)"
      by (simp add: run cb exchange_certificates_def run_simps)
    with pre Inl show ?thesis by simp
  next
    case (Inr u)
    let ?cd = "create_remote_sys_dict (of_str (remote_address p)) (of_str (description p))
                 (of_str (network_latency p))"
    obtain r2 t2 where cr: "create_remote_system c (of_str (remote_address p))
        (of_str (description p)) (of_str (network_latency p)) ?t1 = (r2, t2)"
      by (cases "create_remote_system c (of_str (remote_address p))
        (of_str (description p)) (of_str (network_latency p)) ?t1")
    from create_remote_system_calls[OF cr] obtain rest2 where
      t2: "t2 = ?t1 @ Create_remote_system ?cd # rest2" and rest2: "\<forall>x \<in> set rest2. \<not> mutating x"
      by auto
    have "\<exists>rest3. snd (perform_module_operation c p) = t2 @ rest3
             \<and> (\<forall>x \<in> set rest3. \<not> is_exchange x \<and> \<not> is_create x)"
    proof (cases r2)
      case (Inl e)
      with Inr cr show ?thesis
        by (simp add: run cb exchange_certificates_def run_simps)
    next
      case r2: (Inr chd)
      obtain ch details where chd: "chd = (ch, details)" by (cases chd)
      show ?thesis
      proof (cases "subscript details ''id''")
        case (Inl e)
        with Inr cr r2 chd show ?thesis
          by (simp add: run cb exchange_certificates_def run_simps)
      next
        case i: (Inr i)
        let ?l2 = "?l\<lparr>changed := ch, remote_sys_details := details, remote_sys_id := i\<rparr>"
        obtain r3 t3 where ub: "update_block c p ?l2 t2 = (r3, t3)"
          by (cases "update_block c p ?l2 t2")
        have "snd (perform_module_operation c p) = t3"
          using Inr cr r2 chd i ub
          by (cases r3) (simp_all add: run cb exchange_certificates_def run_simps)
        with update_block_no_exchange_or_create[OF ub] show ?thesis by auto
      qed
    qed
    then obtain rest3 where
      "snd (perform_module_operation c p) = t2 @ rest3"
      "\<forall>x \<in> set rest3. \<not> is_exchange x \<and> \<not> is_create x"
      by auto
    with t2 rest2 pre Inr show ?thesis
      by (auto simp: mutating_def)
  qed
qed

theorem exchange_once_and_before_create_witness:
  "state task_create = present
   \<and> lookup_step refusing_array task_create =
       (Inr (PList []), [Get_cluster_list, Get_remote_system_by_mgmt_address (PStr ''10.2.2.2'')])
   \<and> lookup_step example_array task_create =
       (Inr (PList []), [Get_cluster_list, Get_remote_system_by_mgmt_address (PStr ''10.2.2.2'')])
   \<and> \<not> truthy (PList [])
   \<and> \<not> supplied (remote_id task_create) \<and> \<not> supplied (remote_name task_create)
   \<and> perform_module_operation refusing_array task_create =
       (Inl (Fail_json (Exchange_certificate_failed Other_exception)),
        [Get_cluster_list, Get_remote_system_by_mgmt_address (PStr ''10.2.2.2''),
         Exchange_certificate
           [(''address'', PStr ''10.2.2.2''), (''port'', PInt 443), (''username'', PStr ''admin''),
            (''password'', PStr ''x''), (''service'', PStr ''Replication_HTTP'')]])
   \<and> (\<exists>rest'. snd (perform_module_operation example_array task_create) =
        [Get_cluster_list, Get_remote_system_by_mgmt_address (PStr ''10.2.2.2''),
         Exchange_certificate
           [(''address'', PStr ''10.2.2.2''), (''port'', PInt 443), (''username'', PStr ''admin''),
            (''password'', PStr ''x''), (''service'', PStr ''Replication_HTTP'')],
         Create_remote_system
           [(''management_address'', PStr ''10.2.2.2''), (''description'', PNone),
            (''data_network_latency'', PNone)]] @ rest'
        \<and> (\<forall>y \<in> set rest'. \<not> is_exchange y \<and> \<not> is_create y))"
proof -
  let ?t = "[Get_cluster_list, Get_remote_system_by_mgmt_address (PStr ''10.2.2.2'')]"
  let ?x = "exchange_cert_dict (of_str (remote_user task_create))
              (of_str (remote_password task_create)) (of_str (remote_address task_create))
              (of_int_opt (remote_port task_create))"
  have h1: "state task_create = present" by code_simp
  have h2: "lookup_step refusing_array task_create = (Inr (PList []), ?t)" by code_simp
  have h2': "lookup_step example_array task_create = (Inr (PList []), ?t)" by code_simp
  have h3: "\<not> truthy (PList [])" by simp
  have h4: "\<not> supplied (remote_id task_create)" by code_simp
  have h5: "\<not> supplied (remote_name task_create)" by code_simp
  have x: "?x = [(''address'', PStr ''10.2.2.2''), (''port'', PInt 443), (''username'', PStr ''admin''),
            (''password'', PStr ''x''), (''service'', PStr ''Replication_HTTP'')]" by code_simp
  have cd: "create_remote_sys_dict (of_str (remote_address task_create))
              (of_str (description task_create)) (of_str (network_latency task_create)) =
            [(''management_address'', PStr ''10.2.2.2''), (''description'', PNone),
             (''data_network_latency'', PNone)]" by code_simp
  have refuse: "configuration_exchange_certificate refusing_array ?t ?x = Inl Other_exception"
    by (simp add: refusing_array_def)
  have accept: "configuration_exchange_certificate example_array ?t ?x = Inr ()"
    by (simp add: example_array_def)
  from exchange_once_and_before_create[OF h1 h2 h3 h4 h5] refuse
  have a: "perform_module_operation refusing_array task_create =
       (Inl (Fail_json (Exchange_certificate_failed Other_exception)), ?t @ [Exchange_certificate ?x])"
    by (auto simp: prod_eq_iff)
  from exchange_once_and_before_create[OF h1 h2' h3 h4 h5] accept
  have b: "\<exists>rest'. snd (perform_module_operation example_array task_create) =
        ?t @ Exchange_certificate ?x # Create_remote_system
               (create_remote_sys_dict (of_str (remote_address task_create))
              (of_str (description task_create)) (of_str (network_latency task_create))) # rest'
        \<and> (\<forall>y \<in> set rest'. \<not> is_exchange y \<and> \<not> is_create y)"
    by auto
  from a b h1 h2 h2' h3 h4 h5 show ?thesis
    unfolding x cd by simp
qed



section \<open>Nothing to delete\<close>

text \<open>
  Claim C4. With state \<open>absent\<close> and a falsy answer of the lookup the run exits with
  \<open>changed = False\<close>, no job and the lookup's answer as \<open>remote_system_details\<close>; its
  calls are those of the lookup, none of them an exchange, a creation, a modify or a
  delete.
\<close>

theorem absent_and_not_found_is_noop:
  assumes "state p = absent" and "lookup_step c p = (Inr d, t)" and "\<not> truthy d"
  shows "perform_module_operation c p =
           (Inr [(''changed'', PBool False), (''job_details'', PNone),
                 (''remote_system_details'', d)], t)
         \<and> (\<forall>x \<in> set t. \<not> mutating x)"
proof
  show "perform_module_operation c p =
           (Inr [(''changed'', PBool False), (''job_details'', PNone),
                 (''remote_system_details'', d)], t)"
    using assms
    by (simp add: perform_module_operation_def reconcile_def run_simps not_truthy_skips_check
                  create_block_def delete_block_def update_block_def exit_json_def initial_vars_sel)
  show "\<forall>x \<in> set t. \<not> mutating x"
    using assms(2) by (rule lookup_step_calls)
qed

theorem absent_and_not_found_is_noop_witness:
  "state task_delete_zzz = absent
   \<and> lookup_step example_array task_delete_zzz =
       (Inr PNone, [Get_cluster_list, Get_remote_system_details (PStr ''zzz'')])
   \<and> \<not> truthy PNone
   \<and> perform_module_operation example_array task_delete_zzz =
       (Inr [(''changed'', PBool False), (''job_details'', PNone),
             (''remote_system_details'', PNone)],
        [Get_cluster_list, Get_remote_system_details (PStr ''zzz'')])"
proof -
  have h1: "state task_delete_zzz = absent" by code_simp
  have h2: "lookup_step example_array task_delete_zzz =
       (Inr PNone, [Get_cluster_list, Get_remote_system_details (PStr ''zzz'')])" by code_simp
  have h3: "\<not> truthy PNone" by simp
  from absent_and_not_found_is_noop[OF h1 h2 h3] h1 h2 h3 show ?thesis by blast
qed

section \<open>The lookup\<close>

text \<open>
  Claim C6. When the checks before the lookup pass and the Array Client raises in the
  lookup's query: a 404-class failure makes the lookup return \<^verbatim>\<open>None\<close>, a falsy
  answer, and the run goes on from there as for a system that does not exist; any other
  failure ends the run in the lookup's failure, with that exception. Either way no
  mutating call has been made.
\<close>

theorem lookup_404_is_absent_other_failures_abort:
  assumes "before_lookup c p = (Inr u, t)"
    and "get_remote_system_details_try c (of_str (remote_name p)) (of_str (remote_address p))
           (of_str (remote_id p)) t = (Inl e, t')"
  shows "(is_http_404 e \<longrightarrow>
            get_remote_system_details c (of_str (remote_name p)) (of_str (remote_address p))
              (of_str (remote_id p)) t = (Inr PNone, t')
            \<and> lookup_step c p = (Inr PNone, t')
            \<and> perform_module_operation c p = reconcile c p PNone t')
       \<and> (\<not> is_http_404 e \<longrightarrow>
            perform_module_operation c p = (Inl (Fail_json (Get_details_failed e)), t'))
       \<and> (\<forall>x \<in> set t'. \<not> mutating x)"
proof -
  have g: "get_remote_system_details c (of_str (remote_name p)) (of_str (remote_address p))
             (of_str (remote_id p)) t =
           (if is_http_404 e then Inr PNone else Inl (Fail_json (Get_details_failed e)), t')"
    using assms(2) by (simp add: get_remote_system_details_def)
  then have l: "lookup_step c p =
           (if is_http_404 e then Inr PNone else Inl (Fail_json (Get_details_failed e)), t')"
    using assms(1) by (simp add: lookup_step_def run_simps)
  from lookup_step_calls[OF l] g l show ?thesis
    by (simp add: perform_module_operation_def run_simps)
qed

theorem lookup_404_is_absent_other_failures_abort_witness:
  "before_lookup example_array task_present_zzz = (Inr (), [Get_cluster_list])
   \<and> get_remote_system_details_try example_array (of_str (remote_name task_present_zzz))
        (of_str (remote_address task_present_zzz)) (of_str (remote_id task_present_zzz))
        [Get_cluster_list] =
       (Inl not_found, [Get_cluster_list, Get_remote_system_details (PStr ''zzz'')])
   \<and> is_http_404 not_found
   \<and> perform_module_operation example_array task_present_zzz =
       reconcile example_array task_present_zzz PNone
         [Get_cluster_list, Get_remote_system_details (PStr ''zzz'')]
   \<and> before_lookup failing_array task_get_abc = (Inr (), [Get_cluster_list])
   \<and> get_remote_system_details_try failing_array (of_str (remote_name task_get_abc))
        (of_str (remote_address task_get_abc)) (of_str (remote_id task_get_abc))
        [Get_cluster_list] =
       (Inl Other_exception, [Get_cluster_list, Get_remote_system_details (PStr ''abc'')])
   \<and> \<not> is_http_404 Other_exception
   \<and> perform_module_operation failing_array task_get_abc =
       (Inl (Fail_json (Get_details_failed Other_exception)),
        [Get_cluster_list, Get_remote_system_details (PStr ''abc'')])"
proof -
  have a1: "before_lookup example_array task_present_zzz = (Inr (), [Get_cluster_list])"
    by code_simp
  have a2: "get_remote_system_details_try example_array (of_str (remote_name task_present_zzz))
        (of_str (remote_address task_present_zzz)) (of_str (remote_id task_present_zzz))
        [Get_cluster_list] =
       (Inl not_found, [Get_cluster_list, Get_remote_system_details (PStr ''zzz'')])"
    by code_simp
  have a3: "is_http_404 not_found" by code_simp
  have b1: "before_lookup failing_array task_get_abc = (Inr (), [Get_cluster_list])"
    by code_simp
  have b2: "get_remote_system_details_try failing_array (of_str (remote_name task_get_abc))
        (of_str (remote_address task_get_abc)) (of_str (remote_id task_get_abc))
        [Get_cluster_list] =
       (Inl Other_exception, [Get_cluster_list, Get_remote_system_details (PStr ''abc'')])"
    by code_simp
  have b3: "\<not> is_http_404 Other_exception" by simp
  from lookup_404_is_absent_other_failures_abort[OF a1 a2]
       lookup_404_is_absent_other_failures_abort[OF b1 b2] a1 a2 a3 b1 b2 b3
  show ?thesis by blast
qed





section \<open>The modification-needed predicate and the record's keys\<close>



section \<open>The result\<close>



end
